theory Spec2Isabelle
  imports Main "HOL-Library.Sublist"
begin

section \<open>Package tbconfig: binding a struct from the process environment\<close>

text \<open>
  A shallow embedding of the Go package \<^verbatim>\<open>tbconfig\<close>: \<^verbatim>\<open>LoadConfig\<close>,
  \<^verbatim>\<open>loadConfigIntoStruct\<close>, \<^verbatim>\<open>parseConfigTag\<close>, \<^verbatim>\<open>setFieldValue\<close>,
  \<^verbatim>\<open>applyTransform\<close>, \<^verbatim>\<open>getEnv\<close> and \<^verbatim>\<open>GetEnvAsInt\<close>.

  Go strings are byte sequences, so they are \<^typ>\<open>string\<close> (a list of 8-bit characters).
  The process environment is a partial map from names to values. A struct seen through
  reflection is a list of fields, each with its name, its \<^verbatim>\<open>config\<close> tag, whether it
  can be set, its kind and its current value. Errors are values; a panic of the
  reflection library is an error value of its own.
\<close>

subsection \<open>Functions of the Go standard library used by the package\<close>

text \<open>\<^verbatim>\<open>strings.HasPrefix\<close>, \<^verbatim>\<open>strings.HasSuffix\<close>, \<^verbatim>\<open>strings.TrimPrefix\<close>.\<close>

definition HasPrefix :: "string \<Rightarrow> string \<Rightarrow> bool" where
  "HasPrefix s p = prefix p s"

definition HasSuffix :: "string \<Rightarrow> string \<Rightarrow> bool" where
  "HasSuffix s p = suffix p s"

definition TrimPrefix :: "string \<Rightarrow> string \<Rightarrow> string" where
  "TrimPrefix s p = (if HasPrefix s p then drop (length p) s else s)"

text \<open>
  \<^verbatim>\<open>strings.Trim(s, cutset)\<close> removes every leading and every trailing byte that occurs in
  the cutset (the package only passes an ASCII cutset).
\<close>

definition Trim :: "string \<Rightarrow> string \<Rightarrow> string" where
  "Trim s cutset =
     rev (dropWhile (\<lambda>c. c \<in> set cutset) (rev (dropWhile (\<lambda>c. c \<in> set cutset) s)))"

text \<open>
  \<^verbatim>\<open>strings.TrimSpace\<close> removes leading and trailing white space as Unicode defines it.
  On bytes these are the UTF-8 encodings of U+0009..U+000D, U+0020, U+0085, U+00A0,
  U+1680, U+2000..U+200A, U+2028, U+2029, U+202F, U+205F and U+3000.
\<close>

definition spaceRunes :: "string list" where
  "spaceRunes =
     [[CHR 0x09], [CHR 0x0A], [CHR 0x0B], [CHR 0x0C], [CHR 0x0D], [CHR 0x20],
      [CHR 0xC2, CHR 0x85], [CHR 0xC2, CHR 0xA0],
      [CHR 0xE1, CHR 0x9A, CHR 0x80],
      [CHR 0xE2, CHR 0x80, CHR 0x80], [CHR 0xE2, CHR 0x80, CHR 0x81],
      [CHR 0xE2, CHR 0x80, CHR 0x82], [CHR 0xE2, CHR 0x80, CHR 0x83],
      [CHR 0xE2, CHR 0x80, CHR 0x84], [CHR 0xE2, CHR 0x80, CHR 0x85],
      [CHR 0xE2, CHR 0x80, CHR 0x86], [CHR 0xE2, CHR 0x80, CHR 0x87],
      [CHR 0xE2, CHR 0x80, CHR 0x88], [CHR 0xE2, CHR 0x80, CHR 0x89],
      [CHR 0xE2, CHR 0x80, CHR 0x8A],
      [CHR 0xE2, CHR 0x80, CHR 0xA8], [CHR 0xE2, CHR 0x80, CHR 0xA9],
      [CHR 0xE2, CHR 0x80, CHR 0xAF], [CHR 0xE2, CHR 0x81, CHR 0x9F],
      [CHR 0xE3, CHR 0x80, CHR 0x80]]"

function stripRunes :: "string list \<Rightarrow> string \<Rightarrow> string" where
  "stripRunes ws s =
     (case List.find (\<lambda>w. w \<noteq> [] \<and> prefix w s) ws of
        None \<Rightarrow> s
      | Some w \<Rightarrow> stripRunes ws (drop (length w) s))"
  by pat_completeness auto
termination
proof (relation "measure (\<lambda>(ws, s). length s)")
  show "wf (measure (\<lambda>(ws, s). length s))" by simp
next
  fix ws :: "string list" and s w :: string
  assume "List.find (\<lambda>w. w \<noteq> [] \<and> prefix w s) ws = Some w"
  then have "w \<noteq> []" and "prefix w s"
    by (auto simp: find_Some_iff)
  then have "0 < length w" and "length w \<le> length s"
    by (auto dest: prefix_length_le)
  then show "((ws, drop (length w) s), (ws, s)) \<in> measure (\<lambda>(ws, s). length s)"
    by (cases w) auto
qed

definition TrimSpace :: "string \<Rightarrow> string" where
  "TrimSpace s = rev (stripRunes (map rev spaceRunes) (rev (stripRunes spaceRunes s)))"

text \<open>
  \<^verbatim>\<open>strings.Split(s, sep)\<close> for a non-empty separator: cut \<open>s\<close> at every leftmost,
  non-overlapping occurrence of \<open>sep\<close>. The package never passes an empty separator
  (\<^verbatim>\<open>setFieldValue\<close> replaces it by a comma first), so Go's splitting into single
  characters for the empty separator is not modelled: \<open>splitFrom\<close> then returns the
  string whole.
\<close>

function splitFrom :: "string \<Rightarrow> string \<Rightarrow> string \<Rightarrow> string list" where
  "splitFrom sep acc [] = [rev acc]"
| "splitFrom sep acc (c # cs) =
     (if sep \<noteq> [] \<and> prefix sep (c # cs)
      then rev acc # splitFrom sep [] (drop (length sep) (c # cs))
      else splitFrom sep (c # acc) cs)"
  by pat_completeness auto
termination
  by (relation "measure (\<lambda>(sep, acc, s). length s)") auto

definition Split :: "string \<Rightarrow> string \<Rightarrow> string list" where
  "Split s sep = splitFrom sep [] s"

text \<open>\<^verbatim>\<open>strings.Join\<close>, the inverse of \<^verbatim>\<open>strings.Split\<close> for the same separator.\<close>

fun Join :: "string list \<Rightarrow> string \<Rightarrow> string" where
  "Join [] sep = []"
| "Join [x] sep = x"
| "Join (x # y # zs) sep = x @ sep @ Join (y # zs) sep"

text \<open>
  \<^verbatim>\<open>strconv.ParseUint(s, 10, 64)\<close> and \<^verbatim>\<open>strconv.ParseInt(s, 10, 64)\<close>. The loop reads the
  bytes from the left; a byte that is not a decimal digit is a syntax error, a value that
  leaves the range is a range error. Both functions return an error in either case, and
  the package only tests whether the error is nil. An unsigned 64-bit value is an integer
  between 0 and \<open>maxUint64\<close>.
\<close>

datatype NumError = ErrSyntax | ErrRange

definition isDigit :: "char \<Rightarrow> bool" where
  "isDigit c = (48 \<le> (of_char c :: int) \<and> (of_char c :: int) \<le> 57)"

definition maxUint64 :: int where
  "maxUint64 = 18446744073709551615"

fun parseUintLoop :: "int \<Rightarrow> string \<Rightarrow> NumError + int" where
  "parseUintLoop n [] = Inr n"
| "parseUintLoop n (c # cs) =
     (if \<not> isDigit c then Inl ErrSyntax
      else if n \<ge> maxUint64 div 10 + 1 then Inl ErrRange
      else (let n1 = n * 10 + (of_char c - 48)
            in if n1 > maxUint64 then Inl ErrRange else parseUintLoop n1 cs))"

definition ParseUint :: "string \<Rightarrow> NumError + int" where
  "ParseUint s = (if s = [] then Inl ErrSyntax else parseUintLoop 0 s)"

definition ParseInt :: "string \<Rightarrow> NumError + int" where
  "ParseInt s0 =
     (if s0 = [] then Inl ErrSyntax
      else
        (let neg = (hd s0 = CHR ''-'');
             s = (if hd s0 = CHR ''+'' \<or> hd s0 = CHR ''-'' then tl s0 else s0)
         in case ParseUint s of
              Inl ErrSyntax \<Rightarrow> Inl ErrSyntax
            | Inl ErrRange \<Rightarrow> Inl ErrRange
            | Inr un \<Rightarrow>
                if \<not> neg \<and> un \<ge> 2 ^ 63 then Inl ErrRange
                else if neg \<and> un > 2 ^ 63 then Inl ErrRange
                else Inr (if neg then - un else un)))"

text \<open>
  \<^verbatim>\<open>strconv.Atoi(s)\<close> is \<^verbatim>\<open>ParseInt(s, 10, 0)\<close> converted to \<^verbatim>\<open>int\<close>; \<^verbatim>\<open>int\<close> has
  64 bits here.
\<close>

definition Atoi :: "string \<Rightarrow> NumError + int" where
  "Atoi s = ParseInt s"

text \<open>\<^verbatim>\<open>strconv.ParseBool\<close>: exactly twelve spellings are accepted.\<close>

definition ParseBool :: "string \<Rightarrow> NumError + bool" where
  "ParseBool str =
     (if str \<in> set [''1'', ''t'', ''T'', ''TRUE'', ''true'', ''True''] then Inr True
      else if str \<in> set [''0'', ''f'', ''F'', ''FALSE'', ''false'', ''False''] then Inr False
      else Inl ErrSyntax)"

text \<open>
  \<^verbatim>\<open>url.QueryEscape\<close>: letters, digits and the four marks \<^verbatim>\<open>- _ . ~\<close> are kept, a space
  becomes \<^verbatim>\<open>+\<close>, every other byte becomes \<^verbatim>\<open>%\<close> and two upper-case hexadecimal digits.
\<close>

definition shouldEscape :: "char \<Rightarrow> bool" where
  "shouldEscape c =
     (let n = (of_char c :: nat)
      in \<not> ((97 \<le> n \<and> n \<le> 122) \<or> (65 \<le> n \<and> n \<le> 90) \<or> (48 \<le> n \<and> n \<le> 57)
             \<or> c \<in> set ''-_.~''))"

definition upperhex :: string where
  "upperhex = ''0123456789ABCDEF''"

definition escapeByte :: "char \<Rightarrow> string" where
  "escapeByte c =
     (if shouldEscape c
      then (if c = CHR '' '' then ''+''
            else [CHR ''%'', upperhex ! ((of_char c :: nat) div 16),
                  upperhex ! ((of_char c :: nat) mod 16)])
      else [c])"

definition QueryEscape :: "string \<Rightarrow> string" where
  "QueryEscape s = concat (map escapeByte s)"

text \<open>
  The process environment, and \<^verbatim>\<open>os.LookupEnv\<close>: the empty name is never set.
\<close>

type_synonym environ = "string \<rightharpoonup> string"

definition LookupEnv :: "environ \<Rightarrow> string \<Rightarrow> string option" where
  "LookupEnv environ key = (if key = [] then None else environ key)"

subsection \<open>Constants and types of the package\<close>

record ConfigField =
  EnvVar :: string
  Default :: string
  Required :: bool
  Transform :: string
  Separator :: string
  Description :: string

definition EnvLocal :: string where
  "EnvLocal = ''local''"

definition ServiceEnvVarName :: string where
  "ServiceEnvVarName = ''NODE_ENV''"

definition TransformURLEscape :: string where
  "TransformURLEscape = ''url_escape''"

definition TransformHostsNoPorts :: string where
  "TransformHostsNoPorts = ''hosts_no_ports''"

definition configTagEnv :: string where
  "configTagEnv = ''env:''"

definition configTagDefault :: string where
  "configTagDefault = ''default:''"

definition configTagSep :: string where
  "configTagSep = ''sep:''"

definition configTagTransform :: string where
  "configTagTransform = ''transform:''"

definition configTagDesc :: string where
  "configTagDesc = ''desc:''"

definition configTagRequired :: string where
  "configTagRequired = ''required''"

text \<open>
  What reflection shows of a field. \<open>Kind\<close> is \<^verbatim>\<open>reflect.Kind\<close> as far as the package
  tells kinds apart. A slice kind carries its element type: \<open>ElemString\<close> is the type
  \<^verbatim>\<open>string\<close>, \<open>ElemDefinedString\<close> a defined type whose kind is String (to which a
  \<^verbatim>\<open>[]string\<close> is not assignable), \<open>ElemOther\<close> any other element type. An interface kind
  carries the number of methods of the interface.
\<close>

datatype Elem = ElemString | ElemDefinedString | ElemOther

datatype Kind =
    KString | KInt | KInt8 | KInt16 | KInt32 | KInt64 | KBool
  | KSlice Elem | KInterface nat | KOther

datatype Val =
    VString string | VInt int | VBool bool | VStrings "string list" | VEnv string | VOther

record Field =
  fieldName :: string
  fieldTypeName :: string
  fieldTag :: string
  fieldCanSet :: bool
  fieldKind :: Kind
  fieldValue :: Val

text \<open>
  The argument of \<^verbatim>\<open>LoadConfig\<close>: \<open>NotPointer\<close> is any value that is not a pointer
  (the nil interface too), \<open>PointerToNonStruct\<close> a pointer whose element is not a struct
  (a nil pointer too), \<open>PointerToStruct\<close> a pointer to a struct with the given fields.
\<close>

datatype Target = NotPointer | PointerToNonStruct | PointerToStruct "Field list"

fun isPointerToStruct :: "Target \<Rightarrow> bool" where
  "isPointerToStruct (PointerToStruct fs) = True"
| "isPointerToStruct cfg = False"

datatype FieldError =
    MissingRequired string
  | TypeCoercion string
  | UnsupportedSliceType
  | UnsupportedFieldType
  | SetPanics

datatype Error =
    BootstrapLoadFailed string
  | NotBindable
  | SettingField string FieldError
  | ReflectPanic

subsection \<open>The functions of the package\<close>

definition getEnv :: "environ \<Rightarrow> string \<Rightarrow> string \<Rightarrow> string" where
  "getEnv environ key defaultVal =
     (case LookupEnv environ key of Some v \<Rightarrow> v | None \<Rightarrow> defaultVal)"

definition GetEnvAsInt :: "environ \<Rightarrow> string \<Rightarrow> int \<Rightarrow> int" where
  "GetEnvAsInt environ name defaultVal =
     (case Atoi (getEnv environ name []) of Inr v \<Rightarrow> v | Inl err \<Rightarrow> defaultVal)"

definition applyTransform :: "string \<Rightarrow> string \<Rightarrow> string" where
  "applyTransform v transform =
     (if transform = TransformURLEscape then QueryEscape v
      else if transform = TransformHostsNoPorts then v
      else v)"

text \<open>One directive of a tag, after trimming; the cases are tried in the order of the source.\<close>

definition parsePart :: "ConfigField \<Rightarrow> string \<Rightarrow> ConfigField" where
  "parsePart config part0 =
     (let part = TrimSpace part0 in
      if HasPrefix part configTagEnv then config\<lparr>EnvVar := TrimPrefix part configTagEnv\<rparr>
      else if HasPrefix part configTagDefault
        then config\<lparr>Default := TrimPrefix part configTagDefault\<rparr>
      else if HasPrefix part configTagSep then
        (let sep = TrimPrefix part configTagSep;
             sep' = (if HasPrefix sep [CHR 0x27] \<and> HasSuffix sep [CHR 0x27]
                     then Trim sep [CHR 0x27] else sep)
         in config\<lparr>Separator := sep'\<rparr>)
      else if HasPrefix part configTagTransform
        then config\<lparr>Transform := TrimPrefix part configTagTransform\<rparr>
      else if HasPrefix part configTagDesc
        then config\<lparr>Description := TrimPrefix part configTagDesc\<rparr>
      else if part = configTagRequired then config\<lparr>Required := True\<rparr>
      else config)"

definition emptyConfigField :: ConfigField where
  "emptyConfigField =
     \<lparr>EnvVar = [], Default = [], Required = False, Transform = [], Separator = [],
      Description = []\<rparr>"

text \<open>\<^verbatim>\<open>parseConfigTag\<close>; its error result is nil on every path, so it is left out.\<close>

definition parseConfigTag :: "string \<Rightarrow> ConfigField" where
  "parseConfigTag tag = foldl parsePart emptyConfigField (Split tag '','')"

text \<open>
  Writing an integer with \<^verbatim>\<open>reflect.Value.SetInt\<close> keeps the low bits of the field's
  width, read as a signed number.
\<close>

definition coerceInt :: "nat \<Rightarrow> Field \<Rightarrow> string \<Rightarrow> Field \<times> FieldError option" where
  "coerceInt bits field transformedValue =
     (if transformedValue = [] then (field, None)
      else case ParseInt transformedValue of
             Inl err \<Rightarrow> (field, Some (TypeCoercion transformedValue))
           | Inr intVal \<Rightarrow>
               (field\<lparr>fieldValue := VInt (signed_take_bit (bits - 1) intVal)\<rparr>, None))"

definition coerceBool :: "Field \<Rightarrow> string \<Rightarrow> Field \<times> FieldError option" where
  "coerceBool field transformedValue =
     (if transformedValue = [] then (field, None)
      else case ParseBool transformedValue of
             Inl err \<Rightarrow> (field, Some (TypeCoercion transformedValue))
           | Inr boolVal \<Rightarrow> (field\<lparr>fieldValue := VBool boolVal\<rparr>, None))"

text \<open>
  The slice built for a field of strings. \<^verbatim>\<open>strings.Split(host, ":")[0]\<close> is the head of
  a list that \<^verbatim>\<open>Split\<close> never returns empty. The nil slice is the empty list.
\<close>

definition buildSlice :: "ConfigField \<Rightarrow> string \<Rightarrow> string list" where
  "buildSlice config transformedValue =
     (let separator = (if Separator config = [] then '','' else Separator config) in
      if transformedValue \<noteq> [] then
        (let slice = Split transformedValue separator in
         if Transform config = TransformHostsNoPorts
         then map (\<lambda>host. hd (Split host '':'')) slice
         else slice)
      else if Default config \<noteq> [] then Split (Default config) separator
      else [])"

definition setFieldValue ::
    "environ \<Rightarrow> Field \<Rightarrow> ConfigField \<Rightarrow> Field \<times> FieldError option" where
  "setFieldValue environ field config =
     (let rawValue = getEnv environ (EnvVar config) (Default config) in
      if Required config \<and> rawValue = [] then (field, Some (MissingRequired (EnvVar config)))
      else
        (let transformedValue = applyTransform rawValue (Transform config) in
         case fieldKind field of
           KString \<Rightarrow> (field\<lparr>fieldValue := VString transformedValue\<rparr>, None)
         | KInt \<Rightarrow> coerceInt 64 field transformedValue
         | KInt8 \<Rightarrow> coerceInt 8 field transformedValue
         | KInt16 \<Rightarrow> coerceInt 16 field transformedValue
         | KInt32 \<Rightarrow> coerceInt 32 field transformedValue
         | KInt64 \<Rightarrow> coerceInt 64 field transformedValue
         | KBool \<Rightarrow> coerceBool field transformedValue
         | KSlice ElemString \<Rightarrow>
             (field\<lparr>fieldValue := VStrings (buildSlice config transformedValue)\<rparr>, None)
         | KSlice ElemDefinedString \<Rightarrow> (field, Some SetPanics)
         | KSlice ElemOther \<Rightarrow> (field, Some UnsupportedSliceType)
         | KInterface n \<Rightarrow> (field, Some UnsupportedFieldType)
         | KOther \<Rightarrow> (field, Some UnsupportedFieldType)))"

text \<open>
  The loop of \<^verbatim>\<open>loadConfigIntoStruct\<close> over the fields, in declaration order. It stops at
  the first error; the fields written before it stay written.
\<close>

fun bindFields :: "environ \<Rightarrow> Field list \<Rightarrow> Field list \<times> Error option" where
  "bindFields environ [] = ([], None)"
| "bindFields environ (field # rest) =
     (if \<not> fieldCanSet field \<or> fieldTag field = [] then
        (case bindFields environ rest of (rest', err) \<Rightarrow> (field # rest', err))
      else
        (case setFieldValue environ field (parseConfigTag (fieldTag field)) of
           (field', Some SetPanics) \<Rightarrow> (field' # rest, Some ReflectPanic)
         | (field', Some err) \<Rightarrow> (field' # rest, Some (SettingField (fieldName field) err))
         | (field', None) \<Rightarrow>
             (case bindFields environ rest of (rest', err) \<Rightarrow> (field' # rest', err))))"

fun loadConfigIntoStruct :: "environ \<Rightarrow> Target \<Rightarrow> Target \<times> Error option" where
  "loadConfigIntoStruct environ (PointerToStruct fs) =
     (case bindFields environ fs of (fs', err) \<Rightarrow> (PointerToStruct fs', err))"
| "loadConfigIntoStruct environ cfg = (cfg, Some NotBindable)"

text \<open>
  The last step of \<^verbatim>\<open>LoadConfig\<close>: the field named \<^verbatim>\<open>Env\<close>, if the struct has one and it
  can be set, receives the environment name. A field whose kind is not String but whose
  type is named \<^verbatim>\<open>Env\<close> is given a value of the package's type \<^verbatim>\<open>Env\<close>, which
  \<^verbatim>\<open>reflect.Value.Set\<close> accepts only for an interface without methods and panics otherwise.
  Fields promoted from embedded structs are not modelled.
\<close>

fun setEnvField :: "string \<Rightarrow> Field list \<Rightarrow> Field list \<times> Error option" where
  "setEnvField env [] = ([], None)"
| "setEnvField env (field # rest) =
     (if fieldName field = ''Env'' then
        (if fieldCanSet field then
           (if fieldKind field = KString
              then (field\<lparr>fieldValue := VString env\<rparr> # rest, None)
            else if fieldTypeName field = ''Env'' then
              (if fieldKind field = KInterface 0
                 then (field\<lparr>fieldValue := VEnv env\<rparr> # rest, None)
               else (field # rest, Some ReflectPanic))
            else (field # rest, None))
         else (field # rest, None))
      else (case setEnvField env rest of (rest', err) \<Rightarrow> (field # rest', err)))"

text \<open>
  \<^verbatim>\<open>LoadConfig\<close>. \<^verbatim>\<open>godotenv.Load(".env")\<close> belongs to another module: it is a parameter,
  a function from the environment to the environment it leaves and its error, if any.
  The result is the environment after the call, the argument after the call, and the
  error.
\<close>

definition LoadConfig ::
    "(environ \<Rightarrow> environ \<times> string option) \<Rightarrow> environ \<Rightarrow> Target
       \<Rightarrow> environ \<times> Target \<times> Error option" where
  "LoadConfig godotenvLoad environ cfg =
     (let env = getEnv environ ServiceEnvVarName EnvLocal in
      case (if env = ''local'' then godotenvLoad environ else (environ, None)) of
        (environ', Some msg) \<Rightarrow> (environ', cfg, Some (BootstrapLoadFailed msg))
      | (environ', None) \<Rightarrow>
          (case loadConfigIntoStruct environ' cfg of
             (cfg', Some err) \<Rightarrow> (environ', cfg', Some err)
           | (cfg', None) \<Rightarrow>
               (case cfg' of
                  PointerToStruct fs \<Rightarrow>
                    (case setEnvField env fs of
                       (fs', err) \<Rightarrow> (environ', PointerToStruct fs', err))
                | _ \<Rightarrow> (environ', cfg', Some ReflectPanic))))"

text \<open>
  A field is settled in an environment when binding it again changes nothing: the loop
  skips it, or \<^verbatim>\<open>setFieldValue\<close> writes the value it already has.
\<close>

definition settled :: "environ \<Rightarrow> Field \<Rightarrow> bool" where
  "settled environ f =
     (\<not> fieldCanSet f \<or> fieldTag f = []
      \<or> setFieldValue environ f (parseConfigTag (fieldTag f)) = (f, None))"

text \<open>A struct of three fields, used to run the functions on.\<close>

definition sampleFields :: "string \<Rightarrow> int \<Rightarrow> string \<Rightarrow> Field list" where
  "sampleFields host port env =
     [\<lparr>fieldName = ''DbHost'', fieldTypeName = ''string'', fieldTag = ''env:DB_HOST'',
       fieldCanSet = True, fieldKind = KString, fieldValue = VString host\<rparr>,
      \<lparr>fieldName = ''Port'', fieldTypeName = ''int'', fieldTag = ''env:PORT'',
       fieldCanSet = True, fieldKind = KInt, fieldValue = VInt port\<rparr>,
      \<lparr>fieldName = ''Env'', fieldTypeName = ''string'', fieldTag = [],
       fieldCanSet = True, fieldKind = KString, fieldValue = VString env\<rparr>]"

text \<open>
  \<^verbatim>\<open>godotenv.Load\<close> on a file \<^verbatim>\<open>.env\<close> whose only line is \<^verbatim>\<open>NODE_ENV=production\<close>: the
  variable is set unless the environment has it already, and no error is returned.
\<close>

definition loadDotenvWithSelector :: "environ \<Rightarrow> environ \<times> string option" where
  "loadDotenvWithSelector environ =
     ((if environ ''NODE_ENV'' = None then environ(''NODE_ENV'' \<mapsto> ''production'')
       else environ), None)"

section \<open>Properties\<close>

subsection \<open>Auxiliary facts\<close>

lemma splitFrom_not_Nil: "splitFrom sep acc s \<noteq> []"
  by (induction sep acc s rule: splitFrom.induct) auto

lemma Join_Cons: "ys \<noteq> [] \<Longrightarrow> Join (x # ys) sep = x @ sep @ Join ys sep"
  by (cases ys) simp_all

lemma splitFrom_Join: "Join (splitFrom sep acc s) sep = rev acc @ s"
proof (induction sep acc s rule: splitFrom.induct)
  case (1 sep acc)
  show ?case by simp
next
  case (2 sep acc c cs)
  show ?case
  proof (cases "sep \<noteq> [] \<and> prefix sep (c # cs)")
    case True
    then obtain rest where rest: "c # cs = sep @ rest"
      by (auto simp: prefix_def)
    have "Join (splitFrom sep [] (drop (length sep) (c # cs))) sep = drop (length sep) (c # cs)"
      using "2.IH"(1) True by simp
    then have "Join (rev acc # splitFrom sep [] (drop (length sep) (c # cs))) sep
        = rev acc @ sep @ drop (length sep) (c # cs)"
      by (simp add: Join_Cons splitFrom_not_Nil)
    also have "\<dots> = rev acc @ c # cs"
      unfolding rest by simp
    finally show ?thesis using True by simp
  next
    case False
    then show ?thesis using "2.IH"(2) by auto
  qed
qed

lemma Split_Join: "Join (Split s sep) sep = s"
  by (simp add: Split_def splitFrom_Join)

lemma hd_splitFrom_colon:
  "hd (splitFrom '':'' acc s) = rev acc @ takeWhile (\<lambda>c. c \<noteq> CHR '':'') s"
  by (induction s arbitrary: acc) auto

lemma hd_Split_colon: "hd (Split host '':'') = takeWhile (\<lambda>c. c \<noteq> CHR '':'') host"
  by (simp add: Split_def hd_splitFrom_colon)

lemma Split_three_hosts:
  "Split ''host1:9042,host2:9042,host3:9042'' '','' =
     [''host1:9042'', ''host2:9042'', ''host3:9042'']"
  by code_simp

lemma hosts_no_ports_not_url_escape: "TransformHostsNoPorts \<noteq> TransformURLEscape"
  by (simp add: TransformHostsNoPorts_def TransformURLEscape_def)

lemma bindFields_append:
  "bindFields environ before = (before', None) \<Longrightarrow>
   bindFields environ (before @ rest) =
     (case bindFields environ rest of (rest', err) \<Rightarrow> (before' @ rest', err))"
proof (induction before arbitrary: before')
  case Nil
  then show ?case by simp
next
  case (Cons f fs)
  then show ?case
    by (auto split: if_splits prod.splits option.splits FieldError.splits)
qed

lemma escapeByte_not_Nil: "escapeByte c \<noteq> []"
  by (simp add: escapeByte_def)

lemma QueryEscape_Nil_iff: "QueryEscape v = [] \<longleftrightarrow> v = []"
  by (cases v) (simp_all add: QueryEscape_def escapeByte_not_Nil)

lemma applyTransform_Nil_iff: "applyTransform v t = [] \<longleftrightarrow> v = []"
  by (simp add: applyTransform_def QueryEscape_Nil_iff)

lemma escapeByte_alphabet:
  "\<forall>c. set (escapeByte c) \<subseteq>
     set ''ABCDEFGHIJKLMNOPQRSTUVWXYZabcdefghijklmnopqrstuvwxyz0123456789-_.~+%''"
  by code_simp

lemma escapeByte_length: "\<forall>c. 1 \<le> length (escapeByte c) \<and> length (escapeByte c) \<le> 3"
  by (simp add: escapeByte_def)

lemma url_escape_is_QueryEscape: "applyTransform v TransformURLEscape = QueryEscape v"
  by (simp add: applyTransform_def)

lemma QueryEscape_alphabet:
  "set (QueryEscape v) \<subseteq>
     set ''ABCDEFGHIJKLMNOPQRSTUVWXYZabcdefghijklmnopqrstuvwxyz0123456789-_.~+%''"
  unfolding QueryEscape_def using escapeByte_alphabet by (induction v) auto

lemma QueryEscape_append: "QueryEscape (v @ w) = QueryEscape v @ QueryEscape w"
  by (simp add: QueryEscape_def)

lemma QueryEscape_length:
  "length v \<le> length (QueryEscape v) \<and> length (QueryEscape v) \<le> 3 * length v"
proof (induction v)
  case Nil
  show ?case by (simp add: QueryEscape_def)
next
  case (Cons c v)
  have "1 \<le> length (escapeByte c)" and "length (escapeByte c) \<le> 3"
    using escapeByte_length by auto
  moreover have "length (QueryEscape (c # v)) = length (escapeByte c) + length (QueryEscape v)"
    by (simp add: QueryEscape_def)
  ultimately show ?case using Cons by simp
qed

lemma Atoi_empty: "Atoi [] = Inl ErrSyntax"
  by (simp add: Atoi_def ParseInt_def)

subsection \<open>Binding twice: auxiliary facts\<close>

lemma setFieldValue_again:
  "setFieldValue environ f cfg = (f', None) \<Longrightarrow> setFieldValue environ f' cfg = (f', None)"
  unfolding setFieldValue_def coerceInt_def coerceBool_def Let_def
  by (auto split: if_splits Kind.splits Elem.splits sum.splits)

lemma setFieldValue_static:
  "setFieldValue environ f cfg = (f', err) \<Longrightarrow>
   fieldCanSet f' = fieldCanSet f \<and> fieldTag f' = fieldTag f \<and> fieldName f' = fieldName f
   \<and> fieldKind f' = fieldKind f \<and> fieldTypeName f' = fieldTypeName f"
  unfolding setFieldValue_def coerceInt_def coerceBool_def Let_def
  by (auto split: if_splits Kind.splits Elem.splits sum.splits)

lemma setFieldValue_settled:
  assumes "setFieldValue environ f (parseConfigTag (fieldTag f)) = (f', None)"
  shows "settled environ f'"
proof -
  have "fieldTag f' = fieldTag f"
    using setFieldValue_static [OF assms] by simp
  then show ?thesis
    using setFieldValue_again [OF assms] by (simp add: settled_def)
qed

lemma bindFields_settled:
  "bindFields environ fs = (fs', None) \<Longrightarrow> list_all (settled environ) fs'"
proof (induction fs arbitrary: fs')
  case Nil
  then show ?case by simp
next
  case (Cons f fs)
  show ?case
  proof (cases "\<not> fieldCanSet f \<or> fieldTag f = []")
    case True
    then obtain rest' where "bindFields environ fs = (rest', None)" and "fs' = f # rest'"
      using Cons.prems by (auto split: prod.splits)
    then show ?thesis
      using Cons.IH True by (auto simp: settled_def)
  next
    case False
    then obtain f' rest' where one: "setFieldValue environ f (parseConfigTag (fieldTag f)) = (f', None)"
      and rest: "bindFields environ fs = (rest', None)" and "fs' = f' # rest'"
      using Cons.prems by (auto split: prod.splits option.splits FieldError.splits)
    then show ?thesis
      using Cons.IH setFieldValue_settled by simp
  qed
qed

lemma settled_bindFields:
  "list_all (settled environ) fs \<Longrightarrow> bindFields environ fs = (fs, None)"
  by (induction fs) (auto simp: settled_def)

lemma settled_string_rewritten:
  assumes "settled environ f" and "fieldCanSet f" and "fieldTag f \<noteq> []"
    and "fieldKind f = KString"
  shows "setFieldValue environ (f\<lparr>fieldValue := v\<rparr>) (parseConfigTag (fieldTag f)) = (f, None)"
  using assms unfolding settled_def setFieldValue_def Let_def
  by (auto split: if_splits)

lemma settled_interface_has_no_tag:
  assumes "settled environ f" and "fieldCanSet f" and "fieldKind f = KInterface n"
  shows "fieldTag f = []"
  using assms unfolding settled_def setFieldValue_def Let_def
  by (auto split: if_splits)

lemma rebind_after_setEnvField:
  "list_all (settled environ) fs1 \<Longrightarrow> setEnvField env fs1 = (fs2, None) \<Longrightarrow>
   \<exists>fs3. bindFields environ fs2 = (fs3, None) \<and> setEnvField env fs3 = (fs2, None)"
proof (induction fs1 arbitrary: fs2)
  case Nil
  then show ?case by simp
next
  case (Cons f rest)
  have f_settled: "settled environ f" and rest_settled: "list_all (settled environ) rest"
    using Cons.prems(1) by simp_all
  have rest_fix: "bindFields environ rest = (rest, None)"
    using rest_settled by (rule settled_bindFields)
  show ?case
  proof (cases "fieldName f = ''Env''")
    case False
    then obtain rest2 where r2: "setEnvField env rest = (rest2, None)" and fs2: "fs2 = f # rest2"
      using Cons.prems(2) by (auto split: prod.splits)
    obtain rest3 where r3: "bindFields environ rest2 = (rest3, None)"
      and undo: "setEnvField env rest3 = (rest2, None)"
      using Cons.IH [OF rest_settled r2] by blast
    have "bindFields environ (f # rest2) = (f # rest3, None)"
      using f_settled r3 by (auto simp: settled_def)
    moreover have "setEnvField env (f # rest3) = (f # rest2, None)"
      using False undo by simp
    ultimately show ?thesis using fs2 by blast
  next
    case True
    show ?thesis
    proof (cases "fieldCanSet f")
      case False
      then have "fs2 = f # rest" using True Cons.prems(2) by simp
      moreover have "bindFields environ (f # rest) = (f # rest, None)"
        using Cons.prems(1) by (rule settled_bindFields)
      moreover have "setEnvField env (f # rest) = (f # rest, None)"
        using True False by simp
      ultimately show ?thesis by blast
    next
      case canSet: True
      show ?thesis
      proof (cases "fieldKind f = KString")
        case str: True
        let ?g = "f\<lparr>fieldValue := VString env\<rparr>"
        have fs2: "fs2 = ?g # rest" using True canSet str Cons.prems(2) by simp
        show ?thesis
        proof (cases "fieldTag f = []")
          case True
          then have "bindFields environ (?g # rest) = (?g # rest, None)"
            using rest_fix by simp
          moreover have "setEnvField env (?g # rest) = (?g # rest, None)"
            using \<open>fieldName f = ''Env''\<close> canSet str by simp
          ultimately show ?thesis using fs2 by blast
        next
          case False
          have "setFieldValue environ ?g (parseConfigTag (fieldTag f)) = (f, None)"
            using f_settled canSet False str by (rule settled_string_rewritten)
          then have "bindFields environ (?g # rest) = (f # rest, None)"
            using canSet False rest_fix by simp
          moreover have "setEnvField env (f # rest) = (?g # rest, None)"
            using \<open>fieldName f = ''Env''\<close> canSet str by simp
          ultimately show ?thesis using fs2 by blast
        qed
      next
        case notstr: False
        show ?thesis
        proof (cases "fieldTypeName f = ''Env''")
          case False
          then have "fs2 = f # rest" using True canSet notstr Cons.prems(2) by simp
          moreover have "bindFields environ (f # rest) = (f # rest, None)"
            using Cons.prems(1) by (rule settled_bindFields)
          moreover have "setEnvField env (f # rest) = (f # rest, None)"
            using True canSet notstr False by simp
          ultimately show ?thesis by blast
        next
          case named: True
          let ?g = "f\<lparr>fieldValue := VEnv env\<rparr>"
          have iface: "fieldKind f = KInterface 0"
            using True canSet notstr named Cons.prems(2) by (auto split: if_splits)
          then have fs2: "fs2 = ?g # rest"
            using True canSet notstr named Cons.prems(2) by simp
          have "fieldTag f = []"
            using f_settled canSet iface by (rule settled_interface_has_no_tag)
          then have "bindFields environ (?g # rest) = (?g # rest, None)"
            using rest_fix by simp
          moreover have "setEnvField env (?g # rest) = (?g # rest, None)"
            using True canSet notstr named iface by simp
          ultimately show ?thesis using fs2 by blast
        qed
      qed
    qed
  qed
qed

lemma loadConfigIntoStruct_ok:
  "loadConfigIntoStruct environ cfg = (cfg', None) \<Longrightarrow>
   \<exists>fs fs'. cfg = PointerToStruct fs \<and> cfg' = PointerToStruct fs'
            \<and> bindFields environ fs = (fs', None)"
  by (cases cfg) (auto split: prod.splits)

lemma loadConfigIntoStruct_again:
  assumes "loadConfigIntoStruct environ cfg = (cfg', None)"
  shows "loadConfigIntoStruct environ cfg' = (cfg', None)"
proof -
  obtain fs fs' where "cfg' = PointerToStruct fs'" and "bindFields environ fs = (fs', None)"
    using loadConfigIntoStruct_ok [OF assms] by blast
  then show ?thesis
    using settled_bindFields [OF bindFields_settled] by simp
qed

lemma LoadConfig_ok:
  assumes "LoadConfig godotenvLoad environ cfg = (environ1, cfg1, None)"
  shows "\<exists>fs fs1 fs2.
           (if getEnv environ ServiceEnvVarName EnvLocal = ''local''
            then godotenvLoad environ else (environ, None)) = (environ1, None)
         \<and> cfg = PointerToStruct fs \<and> bindFields environ1 fs = (fs1, None)
         \<and> setEnvField (getEnv environ ServiceEnvVarName EnvLocal) fs1 = (fs2, None)
         \<and> cfg1 = PointerToStruct fs2"
  using assms unfolding LoadConfig_def Let_def
  by (cases cfg)
     (auto split: prod.splits option.splits Target.splits if_splits)

lemma LoadConfig_rerun:
  assumes first: "LoadConfig godotenvLoad environ cfg = (environ1, cfg1, None)"
    and boot: "(if getEnv environ0 ServiceEnvVarName EnvLocal = ''local''
                then godotenvLoad environ0 else (environ0, None)) = (environ1, None)"
    and same: "getEnv environ0 ServiceEnvVarName EnvLocal
               = getEnv environ ServiceEnvVarName EnvLocal"
  shows "LoadConfig godotenvLoad environ0 cfg1 = (environ1, cfg1, None)"
proof -
  let ?env = "getEnv environ ServiceEnvVarName EnvLocal"
  obtain fs fs1 fs2 where bound: "bindFields environ1 fs = (fs1, None)"
    and named: "setEnvField ?env fs1 = (fs2, None)"
    and cfg1: "cfg1 = PointerToStruct fs2"
    using LoadConfig_ok [OF first] by blast
  have "list_all (settled environ1) fs1"
    using bound by (rule bindFields_settled)
  then obtain fs3 where again: "bindFields environ1 fs2 = (fs3, None)"
    and undo: "setEnvField ?env fs3 = (fs2, None)"
    using rebind_after_setEnvField named by blast
  show ?thesis
    unfolding LoadConfig_def Let_def same
    using boot same again undo cfg1 by simp
qed

subsection \<open>Splitting a host list\<close>

text \<open>
  C1. A field of type \<^verbatim>\<open>[]string\<close> whose descriptor names \<^verbatim>\<open>hosts_no_ports\<close> and whose
  resolved value \<open>v\<close> is not empty is set to the pieces of \<open>v\<close> between the occurrences
  of the separator (a comma when the descriptor has none), each cut before its first colon;
  no error is returned. In particular the value \<^verbatim>\<open>host1:9042,host2:9042,host3:9042\<close> with
  the comma as separator gives \<^verbatim>\<open>host1\<close>, \<^verbatim>\<open>host2\<close>, \<^verbatim>\<open>host3\<close> in that order.
\<close>

theorem C1_hosts_no_ports_split:
  assumes "fieldKind f = KSlice ElemString"
    and "Transform cfg = TransformHostsNoPorts"
    and "getEnv environ (EnvVar cfg) (Default cfg) = v"
    and "v \<noteq> []"
  shows "setFieldValue environ f cfg =
           (f\<lparr>fieldValue := VStrings (map (takeWhile (\<lambda>c. c \<noteq> CHR '':''))
                (Split v (if Separator cfg = [] then '','' else Separator cfg)))\<rparr>, None)
         \<and> (v = ''host1:9042,host2:9042,host3:9042''
              \<and> (Separator cfg = '','' \<or> Separator cfg = [])
            \<longrightarrow> setFieldValue environ f cfg =
                  (f\<lparr>fieldValue := VStrings [''host1'', ''host2'', ''host3'']\<rparr>, None))"
proof -
  let ?sep = "if Separator cfg = [] then '','' else Separator cfg"
  have tv: "applyTransform v (Transform cfg) = v"
    using assms(2) by (simp add: applyTransform_def hosts_no_ports_not_url_escape)
  have slice: "buildSlice cfg v = map (takeWhile (\<lambda>c. c \<noteq> CHR '':'')) (Split v ?sep)"
    using assms(2,4) by (simp add: buildSlice_def hd_Split_colon)
  have general: "setFieldValue environ f cfg =
      (f\<lparr>fieldValue := VStrings (map (takeWhile (\<lambda>c. c \<noteq> CHR '':'')) (Split v ?sep))\<rparr>, None)"
    using assms(1,3,4) tv slice by (simp add: setFieldValue_def)
  have particular: "map (takeWhile (\<lambda>c. c \<noteq> CHR '':''))
      (Split ''host1:9042,host2:9042,host3:9042'' '','') = [''host1'', ''host2'', ''host3'']"
    by (simp add: Split_three_hosts)
  show ?thesis
    using general particular by auto
qed

theorem C1_hosts_no_ports_split_witness:
  "setFieldValue [''SCYLLA_CONTACT_POINTS'' \<mapsto> ''host1:9042,host2:9042,host3:9042'']
     \<lparr>fieldName = ''ScyllaHosts'', fieldTypeName = [],
      fieldTag = ''env:SCYLLA_CONTACT_POINTS,sep:',',transform:hosts_no_ports'',
      fieldCanSet = True, fieldKind = KSlice ElemString, fieldValue = VStrings []\<rparr>
     (parseConfigTag ''env:SCYLLA_CONTACT_POINTS,sep:',',transform:hosts_no_ports'')
   = (\<lparr>fieldName = ''ScyllaHosts'', fieldTypeName = [],
       fieldTag = ''env:SCYLLA_CONTACT_POINTS,sep:',',transform:hosts_no_ports'',
       fieldCanSet = True, fieldKind = KSlice ElemString,
       fieldValue = VStrings [''host1'', ''host2'', ''host3'']\<rparr>, None)"
proof -
  let ?tag = "''env:SCYLLA_CONTACT_POINTS,sep:',',transform:hosts_no_ports''"
  let ?environ = "[''SCYLLA_CONTACT_POINTS'' \<mapsto> ''host1:9042,host2:9042,host3:9042'']"
  let ?f = "\<lparr>fieldName = ''ScyllaHosts'', fieldTypeName = [], fieldTag = ?tag,
      fieldCanSet = True, fieldKind = KSlice ElemString, fieldValue = VStrings []\<rparr>"
  have h1: "fieldKind ?f = KSlice ElemString" by simp
  have h2: "Transform (parseConfigTag ?tag) = TransformHostsNoPorts" by code_simp
  have h3: "getEnv ?environ (EnvVar (parseConfigTag ?tag)) (Default (parseConfigTag ?tag))
              = ''host1:9042,host2:9042,host3:9042''" by code_simp
  have h4: "''host1:9042,host2:9042,host3:9042'' \<noteq> []" by simp
  have h5: "Separator (parseConfigTag ?tag) = []" by code_simp
  have "setFieldValue ?environ ?f (parseConfigTag ?tag) =
          (?f\<lparr>fieldValue := VStrings [''host1'', ''host2'', ''host3'']\<rparr>, None)"
    using C1_hosts_no_ports_split [OF h1 h2 h3 h4] h5 by blast
  then show ?thesis by simp
qed

subsection \<open>Required fields\<close>

text \<open>
  C2. When the descriptor is required, the environment has no entry for its key and its
  default is the empty string, \<^verbatim>\<open>setFieldValue\<close> returns the missing-required error
  naming the key and leaves the field as it was. Inside a struct, when the field can be
  set, carries the tag of that descriptor and the fields before it were bound without
  error, \<^verbatim>\<open>loadConfigIntoStruct\<close> returns that error for that field; the fields before it
  keep what was written to them and the fields after it are not touched.
\<close>

theorem C2_missing_required:
  assumes "Required cfg"
    and "LookupEnv environ (EnvVar cfg) = None"
    and "Default cfg = []"
  shows "setFieldValue environ f cfg = (f, Some (MissingRequired (EnvVar cfg)))
       \<and> (fieldCanSet f \<and> fieldTag f \<noteq> [] \<and> parseConfigTag (fieldTag f) = cfg
            \<and> bindFields environ before = (before', None)
          \<longrightarrow> loadConfigIntoStruct environ (PointerToStruct (before @ f # after)) =
                (PointerToStruct (before' @ f # after),
                 Some (SettingField (fieldName f) (MissingRequired (EnvVar cfg)))))"
proof -
  have raw: "getEnv environ (EnvVar cfg) (Default cfg) = []"
    using assms(2,3) by (simp add: getEnv_def)
  have one: "setFieldValue environ f cfg = (f, Some (MissingRequired (EnvVar cfg)))"
    using assms(1) raw by (simp add: setFieldValue_def)
  have all: "loadConfigIntoStruct environ (PointerToStruct (before @ f # after)) =
      (PointerToStruct (before' @ f # after),
       Some (SettingField (fieldName f) (MissingRequired (EnvVar cfg))))"
    if "fieldCanSet f" "fieldTag f \<noteq> []" "parseConfigTag (fieldTag f) = cfg"
       "bindFields environ before = (before', None)"
    using that one by (simp add: bindFields_append)
  show ?thesis using one all by blast
qed

theorem C2_missing_required_witness:
  "loadConfigIntoStruct Map.empty
     (PointerToStruct
        [\<lparr>fieldName = ''Port'', fieldTypeName = ''int'', fieldTag = [], fieldCanSet = True,
          fieldKind = KInt, fieldValue = VInt 0\<rparr>,
         \<lparr>fieldName = ''DbHost'', fieldTypeName = ''string'', fieldTag = ''env:DB_HOST,required'',
          fieldCanSet = True, fieldKind = KString, fieldValue = VString []\<rparr>])
   = (PointerToStruct
        [\<lparr>fieldName = ''Port'', fieldTypeName = ''int'', fieldTag = [], fieldCanSet = True,
          fieldKind = KInt, fieldValue = VInt 0\<rparr>,
         \<lparr>fieldName = ''DbHost'', fieldTypeName = ''string'', fieldTag = ''env:DB_HOST,required'',
          fieldCanSet = True, fieldKind = KString, fieldValue = VString []\<rparr>],
      Some (SettingField ''DbHost'' (MissingRequired ''DB_HOST'')))"
proof -
  let ?port = "\<lparr>fieldName = ''Port'', fieldTypeName = ''int'', fieldTag = [],
      fieldCanSet = True, fieldKind = KInt, fieldValue = VInt 0\<rparr>"
  let ?host = "\<lparr>fieldName = ''DbHost'', fieldTypeName = ''string'',
      fieldTag = ''env:DB_HOST,required'', fieldCanSet = True, fieldKind = KString,
      fieldValue = VString []\<rparr>"
  let ?cfg = "parseConfigTag ''env:DB_HOST,required''"
  have h1: "Required ?cfg" by code_simp
  have h2: "LookupEnv Map.empty (EnvVar ?cfg) = None" by (simp add: LookupEnv_def)
  have h3: "Default ?cfg = []" by code_simp
  have h4: "bindFields Map.empty [?port] = ([?port], None)" by simp
  have h5: "EnvVar ?cfg = ''DB_HOST''" by code_simp
  have "loadConfigIntoStruct Map.empty (PointerToStruct ([?port] @ ?host # [])) =
      (PointerToStruct ([?port] @ ?host # []),
       Some (SettingField (fieldName ?host) (MissingRequired (EnvVar ?cfg))))"
    using C2_missing_required [OF h1 h2 h3, of ?host "[?port]" "[?port]" "[]"] h4 by simp
  then show ?thesis using h5 by simp
qed

subsection \<open>Parsing a tag\<close>

text \<open>
  C3. The tag of the struct in the package's test,
  \<^verbatim>\<open>env:SCYLLA_CONTACT_POINTS,sep:',',transform:hosts_no_ports\<close>, is cut at every comma
  before the quotes are looked at. The directive \<^verbatim>\<open>sep:\<close> is followed by one quote only,
  which starts and ends with a quote and is trimmed to nothing; the second quote is a
  directive of its own and is ignored. The descriptor's separator is empty, not a comma.
  A quoted semicolon, which no cut goes through, does come out as the semicolon.
\<close>

theorem C3_quoted_comma_separator:
  "Split ''env:SCYLLA_CONTACT_POINTS,sep:',',transform:hosts_no_ports'' '','' =
     [''env:SCYLLA_CONTACT_POINTS'', ''sep:'' @ [CHR 0x27], [CHR 0x27],
      ''transform:hosts_no_ports'']
   \<and> parseConfigTag ''env:SCYLLA_CONTACT_POINTS,sep:',',transform:hosts_no_ports'' =
     \<lparr>EnvVar = ''SCYLLA_CONTACT_POINTS'', Default = [], Required = False,
      Transform = ''hosts_no_ports'', Separator = [], Description = []\<rparr>
   \<and> Separator (parseConfigTag (''env:HOSTS,sep:'' @ [CHR 0x27, CHR '';'', CHR 0x27])) = '';''"
  by code_simp

subsection \<open>Empty values\<close>

text \<open>
  C4, as the claim states it, fails for a required descriptor: an integer field whose
  required key is unset has the empty string as its transformed value, and
  \<^verbatim>\<open>setFieldValue\<close> returns the missing-required error.
\<close>

theorem C4_required_empty_integer_counterexample:
  "fieldKind \<lparr>fieldName = ''Port'', fieldTypeName = ''int'', fieldTag = ''env:PORT,required'',
       fieldCanSet = True, fieldKind = KInt, fieldValue = VInt 8080\<rparr> = KInt
   \<and> applyTransform
        (getEnv Map.empty (EnvVar (parseConfigTag ''env:PORT,required''))
           (Default (parseConfigTag ''env:PORT,required'')))
        (Transform (parseConfigTag ''env:PORT,required'')) = []
   \<and> setFieldValue Map.empty
        \<lparr>fieldName = ''Port'', fieldTypeName = ''int'', fieldTag = ''env:PORT,required'',
         fieldCanSet = True, fieldKind = KInt, fieldValue = VInt 8080\<rparr>
        (parseConfigTag ''env:PORT,required'')
      = (\<lparr>fieldName = ''Port'', fieldTypeName = ''int'', fieldTag = ''env:PORT,required'',
          fieldCanSet = True, fieldKind = KInt, fieldValue = VInt 8080\<rparr>,
         Some (MissingRequired ''PORT''))"
  by code_simp

text \<open>
  C4, amended. Let \<open>tv\<close> be the resolved and transformed value. An integer or boolean
  field with \<open>tv\<close> empty keeps its prior value in every case; no error is returned when
  the descriptor is not required, and the missing-required error is returned when it is.
  A string field is assigned \<open>tv\<close> verbatim, empty or not, unless the descriptor is
  required and the resolved value is empty.
\<close>

theorem C4_empty_value_keeps_field:
  assumes "applyTransform (getEnv environ (EnvVar cfg) (Default cfg)) (Transform cfg) = tv"
  shows "(fieldKind f \<in> {KInt, KInt8, KInt16, KInt32, KInt64, KBool} \<and> tv = []
          \<longrightarrow> fst (setFieldValue environ f cfg) = f)
       \<and> (fieldKind f \<in> {KInt, KInt8, KInt16, KInt32, KInt64, KBool} \<and> tv = []
            \<and> \<not> Required cfg
          \<longrightarrow> setFieldValue environ f cfg = (f, None))
       \<and> (fieldKind f \<in> {KInt, KInt8, KInt16, KInt32, KInt64, KBool} \<and> tv = []
            \<and> Required cfg
          \<longrightarrow> setFieldValue environ f cfg = (f, Some (MissingRequired (EnvVar cfg))))
       \<and> (fieldKind f = KString
            \<and> (\<not> Required cfg \<or> getEnv environ (EnvVar cfg) (Default cfg) \<noteq> [])
          \<longrightarrow> setFieldValue environ f cfg = (f\<lparr>fieldValue := VString tv\<rparr>, None))"
proof -
  have raw: "tv = [] \<longleftrightarrow> getEnv environ (EnvVar cfg) (Default cfg) = []"
    using assms applyTransform_Nil_iff by metis
  have free: "setFieldValue environ f cfg = (f, None)"
    if "fieldKind f \<in> {KInt, KInt8, KInt16, KInt32, KInt64, KBool}" "tv = []" "\<not> Required cfg"
    using that assms by (auto simp: setFieldValue_def coerceInt_def coerceBool_def)
  have req: "setFieldValue environ f cfg = (f, Some (MissingRequired (EnvVar cfg)))"
    if "tv = []" "Required cfg"
    using that raw by (simp add: setFieldValue_def)
  have str: "setFieldValue environ f cfg = (f\<lparr>fieldValue := VString tv\<rparr>, None)"
    if "fieldKind f = KString"
       "\<not> Required cfg \<or> getEnv environ (EnvVar cfg) (Default cfg) \<noteq> []"
    using that assms by (auto simp: setFieldValue_def)
  have kept: "fst (setFieldValue environ f cfg) = f"
    if "fieldKind f \<in> {KInt, KInt8, KInt16, KInt32, KInt64, KBool}" "tv = []"
    using free [OF that] req [OF that(2)] by (cases "Required cfg") simp_all
  show ?thesis using free req str kept by blast
qed

theorem C4_empty_value_keeps_field_witness:
  "setFieldValue Map.empty
     \<lparr>fieldName = ''Port'', fieldTypeName = ''int'', fieldTag = ''env:PORT'',
      fieldCanSet = True, fieldKind = KInt, fieldValue = VInt 8080\<rparr>
     (parseConfigTag ''env:PORT'')
   = (\<lparr>fieldName = ''Port'', fieldTypeName = ''int'', fieldTag = ''env:PORT'',
       fieldCanSet = True, fieldKind = KInt, fieldValue = VInt 8080\<rparr>, None)
   \<and> setFieldValue Map.empty
     \<lparr>fieldName = ''Debug'', fieldTypeName = ''bool'', fieldTag = ''env:DEBUG,required'',
      fieldCanSet = True, fieldKind = KBool, fieldValue = VBool True\<rparr>
     (parseConfigTag ''env:DEBUG,required'')
   = (\<lparr>fieldName = ''Debug'', fieldTypeName = ''bool'', fieldTag = ''env:DEBUG,required'',
       fieldCanSet = True, fieldKind = KBool, fieldValue = VBool True\<rparr>,
      Some (MissingRequired ''DEBUG''))
   \<and> setFieldValue Map.empty
     \<lparr>fieldName = ''DbName'', fieldTypeName = ''string'', fieldTag = ''env:DB_NAME'',
      fieldCanSet = True, fieldKind = KString, fieldValue = VString ''old''\<rparr>
     (parseConfigTag ''env:DB_NAME'')
   = (\<lparr>fieldName = ''DbName'', fieldTypeName = ''string'', fieldTag = ''env:DB_NAME'',
       fieldCanSet = True, fieldKind = KString, fieldValue = VString []\<rparr>, None)"
proof -
  let ?port = "\<lparr>fieldName = ''Port'', fieldTypeName = ''int'', fieldTag = ''env:PORT'',
      fieldCanSet = True, fieldKind = KInt, fieldValue = VInt 8080\<rparr>"
  let ?debug = "\<lparr>fieldName = ''Debug'', fieldTypeName = ''bool'',
      fieldTag = ''env:DEBUG,required'', fieldCanSet = True, fieldKind = KBool,
      fieldValue = VBool True\<rparr>"
  let ?name = "\<lparr>fieldName = ''DbName'', fieldTypeName = ''string'', fieldTag = ''env:DB_NAME'',
      fieldCanSet = True, fieldKind = KString, fieldValue = VString ''old''\<rparr>"
  let ?cp = "parseConfigTag ''env:PORT''"
  let ?cd = "parseConfigTag ''env:DEBUG,required''"
  let ?cn = "parseConfigTag ''env:DB_NAME''"
  have tp: "applyTransform (getEnv Map.empty (EnvVar ?cp) (Default ?cp)) (Transform ?cp) = []"
    by code_simp
  have td: "applyTransform (getEnv Map.empty (EnvVar ?cd) (Default ?cd)) (Transform ?cd) = []"
    by code_simp
  have tn: "applyTransform (getEnv Map.empty (EnvVar ?cn) (Default ?cn)) (Transform ?cn) = []"
    by code_simp
  have np: "\<not> Required ?cp" by code_simp
  have rd: "Required ?cd" by code_simp
  have ed: "EnvVar ?cd = ''DEBUG''" by code_simp
  have nn: "\<not> Required ?cn" by code_simp
  have kp: "fieldKind ?port \<in> {KInt, KInt8, KInt16, KInt32, KInt64, KBool}" by simp
  have kd: "fieldKind ?debug \<in> {KInt, KInt8, KInt16, KInt32, KInt64, KBool}" by simp
  have kn: "fieldKind ?name = KString" by simp
  have a: "setFieldValue Map.empty ?port ?cp = (?port, None)"
    using C4_empty_value_keeps_field [OF tp, of ?port] kp np by simp
  have b: "setFieldValue Map.empty ?debug ?cd = (?debug, Some (MissingRequired (EnvVar ?cd)))"
    using C4_empty_value_keeps_field [OF td, of ?debug] kd rd by simp
  have c: "setFieldValue Map.empty ?name ?cn = (?name\<lparr>fieldValue := VString []\<rparr>, None)"
    using C4_empty_value_keeps_field [OF tn, of ?name] kn nn by simp
  show ?thesis using a b c ed by simp
qed

subsection \<open>Binding twice\<close>

text \<open>
  C5, as the claim states it, fails for \<^verbatim>\<open>LoadConfig\<close>, which writes the environment
  itself. With \<^verbatim>\<open>NODE_ENV\<close> unset and a file \<^verbatim>\<open>.env\<close> that sets it to \<^verbatim>\<open>production\<close>, the
  first call reads the name \<^verbatim>\<open>local\<close>, loads the file and writes \<^verbatim>\<open>local\<close> to the field
  \<^verbatim>\<open>Env\<close>. The second call, on the struct and in the environment the first call left,
  reads \<^verbatim>\<open>production\<close>, succeeds too, and writes \<^verbatim>\<open>production\<close> to that field: the struct
  is not the same.
\<close>

theorem C5_selector_loaded_from_dotenv_counterexample:
  "LoadConfig loadDotenvWithSelector Map.empty (PointerToStruct (sampleFields [] 7 []))
     = ([''NODE_ENV'' \<mapsto> ''production''],
        PointerToStruct (sampleFields [] 7 ''local''), None)
   \<and> LoadConfig loadDotenvWithSelector [''NODE_ENV'' \<mapsto> ''production'']
       (PointerToStruct (sampleFields [] 7 ''local''))
     = ([''NODE_ENV'' \<mapsto> ''production''],
        PointerToStruct (sampleFields [] 7 ''production''), None)
   \<and> PointerToStruct (sampleFields [] 7 ''production'')
       \<noteq> PointerToStruct (sampleFields [] 7 ''local'')"
proof -
  let ?environ1 = "[''NODE_ENV'' \<mapsto> ''production'']"
  have sel: "getEnv Map.empty ServiceEnvVarName EnvLocal = ''local''"
    by (simp add: getEnv_def LookupEnv_def EnvLocal_def)
  have sel1: "getEnv ?environ1 ServiceEnvVarName EnvLocal = ''production''"
    by code_simp
  have load: "loadDotenvWithSelector Map.empty = (?environ1, None)"
    by (simp add: loadDotenvWithSelector_def)
  have bind0: "loadConfigIntoStruct ?environ1 (PointerToStruct (sampleFields [] 7 []))
      = (PointerToStruct (sampleFields [] 7 []), None)"
    by code_simp
  have bind1: "loadConfigIntoStruct ?environ1 (PointerToStruct (sampleFields [] 7 ''local''))
      = (PointerToStruct (sampleFields [] 7 ''local''), None)"
    by code_simp
  have named0: "setEnvField ''local'' (sampleFields [] 7 [])
      = (sampleFields [] 7 ''local'', None)"
    by code_simp
  have named1: "setEnvField ''production'' (sampleFields [] 7 ''local'')
      = (sampleFields [] 7 ''production'', None)"
    by code_simp
  have first: "LoadConfig loadDotenvWithSelector Map.empty
      (PointerToStruct (sampleFields [] 7 []))
      = (?environ1, PointerToStruct (sampleFields [] 7 ''local''), None)"
    unfolding LoadConfig_def Let_def sel load using bind0 named0 by simp
  have second: "LoadConfig loadDotenvWithSelector ?environ1
      (PointerToStruct (sampleFields [] 7 ''local''))
      = (?environ1, PointerToStruct (sampleFields [] 7 ''production''), None)"
    unfolding LoadConfig_def Let_def sel1 using bind1 named1 by simp
  have differ: "PointerToStruct (sampleFields [] 7 ''production'')
      \<noteq> PointerToStruct (sampleFields [] 7 ''local'')"
    by code_simp
  show ?thesis using first second differ by (intro conjI)
qed

text \<open>
  C5, amended. If \<^verbatim>\<open>loadConfigIntoStruct\<close> succeeds in an environment, running it in that
  environment on the struct it produced succeeds and changes nothing. If \<^verbatim>\<open>LoadConfig\<close>
  succeeds, running it on the struct it produced, in the environment it left, succeeds and
  changes neither the struct nor the environment, provided that \<^verbatim>\<open>NODE_ENV\<close> reads the same
  in the environment it left as before the first call and that, when that name is
  \<^verbatim>\<open>local\<close>, loading \<^verbatim>\<open>.env\<close> once more succeeds and changes nothing.
\<close>

theorem C5_rebinding_idempotent_selector_kept:
  "(loadConfigIntoStruct environ cfg = (cfg', None)
      \<longrightarrow> loadConfigIntoStruct environ cfg' = (cfg', None))
   \<and> (LoadConfig godotenvLoad environ cfg = (environ1, cfg1, None)
        \<and> getEnv environ1 ServiceEnvVarName EnvLocal = getEnv environ ServiceEnvVarName EnvLocal
        \<and> (getEnv environ ServiceEnvVarName EnvLocal = ''local''
            \<longrightarrow> godotenvLoad environ1 = (environ1, None))
      \<longrightarrow> LoadConfig godotenvLoad environ1 cfg1 = (environ1, cfg1, None))"
proof (intro conjI impI)
  assume "loadConfigIntoStruct environ cfg = (cfg', None)"
  then show "loadConfigIntoStruct environ cfg' = (cfg', None)"
    by (rule loadConfigIntoStruct_again)
next
  assume h: "LoadConfig godotenvLoad environ cfg = (environ1, cfg1, None)
      \<and> getEnv environ1 ServiceEnvVarName EnvLocal = getEnv environ ServiceEnvVarName EnvLocal
      \<and> (getEnv environ ServiceEnvVarName EnvLocal = ''local''
          \<longrightarrow> godotenvLoad environ1 = (environ1, None))"
  then have first: "LoadConfig godotenvLoad environ cfg = (environ1, cfg1, None)"
    and same: "getEnv environ1 ServiceEnvVarName EnvLocal
               = getEnv environ ServiceEnvVarName EnvLocal"
    by simp_all
  have "(if getEnv environ1 ServiceEnvVarName EnvLocal = ''local''
         then godotenvLoad environ1 else (environ1, None)) = (environ1, None)"
    using h by simp
  then show "LoadConfig godotenvLoad environ1 cfg1 = (environ1, cfg1, None)"
    using LoadConfig_rerun [OF first _ same] by simp
qed

theorem C5_rebinding_idempotent_selector_kept_witness:
  "loadConfigIntoStruct [''DB_HOST'' \<mapsto> ''db.local''] (PointerToStruct (sampleFields [] 7 []))
     = (PointerToStruct (sampleFields ''db.local'' 7 []), None)
   \<and> loadConfigIntoStruct [''DB_HOST'' \<mapsto> ''db.local'']
       (PointerToStruct (sampleFields ''db.local'' 7 []))
     = (PointerToStruct (sampleFields ''db.local'' 7 []), None)
   \<and> LoadConfig (\<lambda>e. (e(''DB_HOST'' \<mapsto> ''db.local''), None)) Map.empty
       (PointerToStruct (sampleFields [] 7 []))
     = ([''DB_HOST'' \<mapsto> ''db.local''],
        PointerToStruct (sampleFields ''db.local'' 7 ''local''), None)
   \<and> LoadConfig (\<lambda>e. (e(''DB_HOST'' \<mapsto> ''db.local''), None)) [''DB_HOST'' \<mapsto> ''db.local'']
       (PointerToStruct (sampleFields ''db.local'' 7 ''local''))
     = ([''DB_HOST'' \<mapsto> ''db.local''],
        PointerToStruct (sampleFields ''db.local'' 7 ''local''), None)"
proof -
  let ?load = "\<lambda>e::environ. (e(''DB_HOST'' \<mapsto> ''db.local''), None :: string option)"
  let ?environ1 = "[''DB_HOST'' \<mapsto> ''db.local'']"
  let ?cfg = "PointerToStruct (sampleFields [] 7 [])"
  let ?bound = "PointerToStruct (sampleFields ''db.local'' 7 [])"
  let ?cfg1 = "PointerToStruct (sampleFields ''db.local'' 7 ''local'')"
  note claim = C5_rebinding_idempotent_selector_kept
  have sel: "getEnv Map.empty ServiceEnvVarName EnvLocal = ''local''"
    by (simp add: getEnv_def LookupEnv_def EnvLocal_def)
  have sel1: "getEnv ?environ1 ServiceEnvVarName EnvLocal = ''local''"
    by code_simp
  have bind: "loadConfigIntoStruct ?environ1 ?cfg = (?bound, None)"
    by code_simp
  have named: "setEnvField ''local'' (sampleFields ''db.local'' 7 [])
      = (sampleFields ''db.local'' 7 ''local'', None)"
    by code_simp
  have first: "LoadConfig ?load Map.empty ?cfg = (?environ1, ?cfg1, None)"
    unfolding LoadConfig_def Let_def sel using bind named by simp
  have a: "loadConfigIntoStruct ?environ1 ?bound = (?bound, None)"
    by (rule claim [THEN conjunct1, THEN mp, OF bind])
  have again: "getEnv Map.empty ServiceEnvVarName EnvLocal = ''local''
      \<longrightarrow> ?load ?environ1 = (?environ1, None)"
    by simp
  have c: "LoadConfig ?load ?environ1 ?cfg1 = (?environ1, ?cfg1, None)"
    using claim [THEN conjunct2, THEN mp, OF conjI, OF first, OF conjI, OF _ again] sel sel1
    by simp
  show ?thesis using bind a first c by (intro conjI)
qed

subsection \<open>The transform url_escape\<close>

text \<open>
  C6. The transform \<^verbatim>\<open>url_escape\<close> maps \<^verbatim>\<open>p@ss w!th sp&cial\<close> to
  \<^verbatim>\<open>p%40ss+w%21th+sp%26cial\<close>; a space becomes a plus sign and each reserved character
  its percent escape. It is defined on every string, byte by byte: the result of a
  concatenation is the concatenation of the results, it consists only of letters, digits
  and the marks \<^verbatim>\<open>- _ . ~ + %\<close>, and it has between one and three bytes for each byte
  of the input.
\<close>

theorem C6_url_escape:
  "applyTransform ''p@ss w!th sp&cial'' TransformURLEscape = ''p%40ss+w%21th+sp%26cial''
   \<and> applyTransform '' $&+,/:;=?@!'' TransformURLEscape = ''+%24%26%2B%2C%2F%3A%3B%3D%3F%40%21''
   \<and> applyTransform (v @ w) TransformURLEscape =
       applyTransform v TransformURLEscape @ applyTransform w TransformURLEscape
   \<and> set (applyTransform v TransformURLEscape) \<subseteq>
       set ''ABCDEFGHIJKLMNOPQRSTUVWXYZabcdefghijklmnopqrstuvwxyz0123456789-_.~+%''
   \<and> length v \<le> length (applyTransform v TransformURLEscape)
   \<and> length (applyTransform v TransformURLEscape) \<le> 3 * length v"
proof -
  have one: "QueryEscape ''p@ss w!th sp&cial'' = ''p%40ss+w%21th+sp%26cial''"
    by code_simp
  have two: "QueryEscape '' $&+,/:;=?@!'' = ''+%24%26%2B%2C%2F%3A%3B%3D%3F%40%21''"
    by code_simp
  show ?thesis
    unfolding url_escape_is_QueryEscape
    using one two QueryEscape_append QueryEscape_alphabet QueryEscape_length
    by (intro conjI) auto
qed

subsection \<open>Splitting the default\<close>

text \<open>
  C7, as the claim states it, fails for a required descriptor: when the key is set to the
  empty string, the resolved and transformed value is empty, the default is not, and
  \<^verbatim>\<open>setFieldValue\<close> returns the missing-required error without splitting anything.
\<close>

theorem C7_required_empty_slice_counterexample:
  "fieldKind \<lparr>fieldName = ''Hosts'', fieldTypeName = [],
       fieldTag = ''env:HOSTS,default:h1:1;h2:2,sep:;,required'',
       fieldCanSet = True, fieldKind = KSlice ElemString, fieldValue = VStrings []\<rparr>
     = KSlice ElemString
   \<and> Default (parseConfigTag ''env:HOSTS,default:h1:1;h2:2,sep:;,required'') = ''h1:1;h2:2''
   \<and> applyTransform
        (getEnv [''HOSTS'' \<mapsto> []]
           (EnvVar (parseConfigTag ''env:HOSTS,default:h1:1;h2:2,sep:;,required''))
           (Default (parseConfigTag ''env:HOSTS,default:h1:1;h2:2,sep:;,required'')))
        (Transform (parseConfigTag ''env:HOSTS,default:h1:1;h2:2,sep:;,required'')) = []
   \<and> setFieldValue [''HOSTS'' \<mapsto> []]
        \<lparr>fieldName = ''Hosts'', fieldTypeName = [],
         fieldTag = ''env:HOSTS,default:h1:1;h2:2,sep:;,required'',
         fieldCanSet = True, fieldKind = KSlice ElemString, fieldValue = VStrings []\<rparr>
        (parseConfigTag ''env:HOSTS,default:h1:1;h2:2,sep:;,required'')
      = (\<lparr>fieldName = ''Hosts'', fieldTypeName = [],
          fieldTag = ''env:HOSTS,default:h1:1;h2:2,sep:;,required'',
          fieldCanSet = True, fieldKind = KSlice ElemString, fieldValue = VStrings []\<rparr>,
         Some (MissingRequired ''HOSTS''))"
  by code_simp

text \<open>
  C7, amended. For a field of type \<^verbatim>\<open>[]string\<close> whose resolved and transformed value is
  empty and whose default is not: when the descriptor is not required, the field is set to
  the pieces of the default between the occurrences of the separator (a comma when the
  descriptor has none), with no transform and no cut at a colon, whatever transform the
  descriptor names; when the descriptor is required, the missing-required error is
  returned and the field keeps its value.
\<close>

theorem C7_default_split_untransformed:
  assumes "fieldKind f = KSlice ElemString"
    and "applyTransform (getEnv environ (EnvVar cfg) (Default cfg)) (Transform cfg) = []"
    and "Default cfg \<noteq> []"
  shows "(\<not> Required cfg \<longrightarrow>
            setFieldValue environ f cfg =
              (f\<lparr>fieldValue := VStrings
                   (Split (Default cfg)
                      (if Separator cfg = [] then '','' else Separator cfg))\<rparr>, None))
       \<and> (Required cfg \<longrightarrow>
            setFieldValue environ f cfg = (f, Some (MissingRequired (EnvVar cfg))))"
proof -
  have raw: "getEnv environ (EnvVar cfg) (Default cfg) = []"
    using assms(2) applyTransform_Nil_iff by metis
  have slice: "buildSlice cfg [] =
      Split (Default cfg) (if Separator cfg = [] then '','' else Separator cfg)"
    using assms(3) by (simp add: buildSlice_def)
  show ?thesis
    using assms(1,2) raw slice by (simp add: setFieldValue_def)
qed

theorem C7_default_split_untransformed_witness:
  "setFieldValue [''HOSTS'' \<mapsto> []]
     \<lparr>fieldName = ''Hosts'', fieldTypeName = [],
      fieldTag = ''env:HOSTS,default:h1:1;h2:2,sep:;,transform:hosts_no_ports'',
      fieldCanSet = True, fieldKind = KSlice ElemString, fieldValue = VStrings []\<rparr>
     (parseConfigTag ''env:HOSTS,default:h1:1;h2:2,sep:;,transform:hosts_no_ports'')
   = (\<lparr>fieldName = ''Hosts'', fieldTypeName = [],
       fieldTag = ''env:HOSTS,default:h1:1;h2:2,sep:;,transform:hosts_no_ports'',
       fieldCanSet = True, fieldKind = KSlice ElemString,
       fieldValue = VStrings [''h1:1'', ''h2:2'']\<rparr>, None)
   \<and> setFieldValue [''HOSTS'' \<mapsto> []]
     \<lparr>fieldName = ''Hosts'', fieldTypeName = [],
      fieldTag = ''env:HOSTS,default:h1:1;h2:2,sep:;,required'',
      fieldCanSet = True, fieldKind = KSlice ElemString, fieldValue = VStrings [''old'']\<rparr>
     (parseConfigTag ''env:HOSTS,default:h1:1;h2:2,sep:;,required'')
   = (\<lparr>fieldName = ''Hosts'', fieldTypeName = [],
       fieldTag = ''env:HOSTS,default:h1:1;h2:2,sep:;,required'',
       fieldCanSet = True, fieldKind = KSlice ElemString, fieldValue = VStrings [''old'']\<rparr>,
      Some (MissingRequired ''HOSTS''))"
proof -
  let ?tag = "''env:HOSTS,default:h1:1;h2:2,sep:;,transform:hosts_no_ports''"
  let ?f = "\<lparr>fieldName = ''Hosts'', fieldTypeName = [], fieldTag = ?tag,
      fieldCanSet = True, fieldKind = KSlice ElemString, fieldValue = VStrings []\<rparr>"
  let ?cfg = "parseConfigTag ?tag"
  let ?rtag = "''env:HOSTS,default:h1:1;h2:2,sep:;,required''"
  let ?rf = "\<lparr>fieldName = ''Hosts'', fieldTypeName = [], fieldTag = ?rtag,
      fieldCanSet = True, fieldKind = KSlice ElemString, fieldValue = VStrings [''old'']\<rparr>"
  let ?rcfg = "parseConfigTag ?rtag"
  have h1: "fieldKind ?f = KSlice ElemString" by simp
  have h2: "applyTransform (getEnv [''HOSTS'' \<mapsto> []] (EnvVar ?cfg) (Default ?cfg))
      (Transform ?cfg) = []"
    by code_simp
  have h3: "Default ?cfg \<noteq> []" by code_simp
  have h4: "\<not> Required ?cfg" by code_simp
  have h5: "Split (Default ?cfg) (if Separator ?cfg = [] then '','' else Separator ?cfg)
      = [''h1:1'', ''h2:2'']"
    by code_simp
  have r1: "fieldKind ?rf = KSlice ElemString" by simp
  have r2: "applyTransform (getEnv [''HOSTS'' \<mapsto> []] (EnvVar ?rcfg) (Default ?rcfg))
      (Transform ?rcfg) = []"
    by code_simp
  have r3: "Default ?rcfg \<noteq> []" by code_simp
  have r4: "Required ?rcfg" by code_simp
  have r5: "EnvVar ?rcfg = ''HOSTS''" by code_simp
  have a: "setFieldValue [''HOSTS'' \<mapsto> []] ?f ?cfg =
      (?f\<lparr>fieldValue := VStrings
           (Split (Default ?cfg) (if Separator ?cfg = [] then '','' else Separator ?cfg))\<rparr>,
       None)"
    using C7_default_split_untransformed [OF h1 h2 h3] h4 by (rule mp [OF conjunct1])
  have b: "setFieldValue [''HOSTS'' \<mapsto> []] ?rf ?rcfg =
      (?rf, Some (MissingRequired (EnvVar ?rcfg)))"
    using C7_default_split_untransformed [OF r1 r2 r3] r4 by (rule mp [OF conjunct2])
  show ?thesis using a b unfolding h5 r5 by simp
qed

subsection \<open>Arguments that cannot be bound\<close>

text \<open>
  C8. For an argument that is not a pointer to a struct, \<^verbatim>\<open>loadConfigIntoStruct\<close> returns
  the not-bindable error and the argument as it was: nothing is written. \<^verbatim>\<open>LoadConfig\<close>
  returns the same whenever the step before it lets it run, that is when \<^verbatim>\<open>NODE_ENV\<close> is
  not \<^verbatim>\<open>local\<close> or the file \<^verbatim>\<open>.env\<close> loaded without error.
\<close>

theorem C8_not_bindable:
  assumes "\<not> isPointerToStruct cfg"
  shows "loadConfigIntoStruct environ cfg = (cfg, Some NotBindable)
       \<and> (getEnv environ ServiceEnvVarName EnvLocal \<noteq> ''local''
          \<longrightarrow> LoadConfig godotenvLoad environ cfg = (environ, cfg, Some NotBindable))
       \<and> (getEnv environ ServiceEnvVarName EnvLocal = ''local''
            \<and> godotenvLoad environ = (environ', None)
          \<longrightarrow> LoadConfig godotenvLoad environ cfg = (environ', cfg, Some NotBindable))"
proof -
  have inner: "loadConfigIntoStruct e cfg = (cfg, Some NotBindable)" for e
    using assms by (cases cfg) simp_all
  show ?thesis
    by (simp add: LoadConfig_def inner)
qed


theorem C8_not_bindable_witness:
  "loadConfigIntoStruct [''NODE_ENV'' \<mapsto> ''production''] PointerToNonStruct
     = (PointerToNonStruct, Some NotBindable)
   \<and> LoadConfig (\<lambda>e. (e, None)) [''NODE_ENV'' \<mapsto> ''production''] NotPointer
     = ([''NODE_ENV'' \<mapsto> ''production''], NotPointer, Some NotBindable)
   \<and> LoadConfig (\<lambda>e. (e(''A'' \<mapsto> ''1''), None)) Map.empty NotPointer
     = ([''A'' \<mapsto> ''1''], NotPointer, Some NotBindable)"
proof -
  have h1: "\<not> isPointerToStruct PointerToNonStruct" by simp
  have h2: "\<not> isPointerToStruct NotPointer" by simp
  have prod: "getEnv [''NODE_ENV'' \<mapsto> ''production''] ServiceEnvVarName EnvLocal \<noteq> ''local''"
    by (simp add: getEnv_def LookupEnv_def ServiceEnvVarName_def)
  have loc: "getEnv Map.empty ServiceEnvVarName EnvLocal = ''local''"
    by (simp add: getEnv_def LookupEnv_def EnvLocal_def)
  have a: "loadConfigIntoStruct [''NODE_ENV'' \<mapsto> ''production''] PointerToNonStruct
      = (PointerToNonStruct, Some NotBindable)"
    by (rule C8_not_bindable [OF h1, THEN conjunct1])
  have b: "LoadConfig (\<lambda>e. (e, None)) [''NODE_ENV'' \<mapsto> ''production''] NotPointer
      = ([''NODE_ENV'' \<mapsto> ''production''], NotPointer, Some NotBindable)"
    by (rule C8_not_bindable [OF h2, THEN conjunct2, THEN conjunct1, THEN mp, OF prod])
  have c: "LoadConfig (\<lambda>e. (e(''A'' \<mapsto> ''1''), None)) Map.empty NotPointer
      = ([''A'' \<mapsto> ''1''], NotPointer, Some NotBindable)"
    using C8_not_bindable [OF h2, where environ = Map.empty
        and godotenvLoad = "\<lambda>e. (e(''A'' \<mapsto> ''1''), None)" and environ' = "[''A'' \<mapsto> ''1'']"]
      loc by simp
  show ?thesis using a b c by (intro conjI)
qed

subsection \<open>The order of the checks in LoadConfig\<close>

text \<open>
  C9. When \<^verbatim>\<open>NODE_ENV\<close> is unset or is \<^verbatim>\<open>local\<close> and loading the file \<^verbatim>\<open>.env\<close> fails,
  \<^verbatim>\<open>LoadConfig\<close> returns the error of the load for every argument, also one that is not
  a pointer to a struct: the argument is returned as it was and its kind is never tested.
\<close>

theorem C9_bootstrap_before_target_check:
  assumes "LookupEnv environ ServiceEnvVarName = None
           \<or> LookupEnv environ ServiceEnvVarName = Some ''local''"
    and "godotenvLoad environ = (environ', Some msg)"
  shows "LoadConfig godotenvLoad environ cfg = (environ', cfg, Some (BootstrapLoadFailed msg))"
  using assms by (auto simp: LoadConfig_def getEnv_def EnvLocal_def)

theorem C9_bootstrap_before_target_check_witness:
  "LoadConfig (\<lambda>e. (e, Some ''open .env: no such file or directory'')) Map.empty NotPointer
     = (Map.empty, NotPointer, Some (BootstrapLoadFailed ''open .env: no such file or directory''))
   \<and> loadConfigIntoStruct Map.empty NotPointer = (NotPointer, Some NotBindable)"
proof -
  have h1: "LookupEnv Map.empty ServiceEnvVarName = None
            \<or> LookupEnv Map.empty ServiceEnvVarName = Some ''local''"
    by (simp add: LookupEnv_def)
  show ?thesis
    using C9_bootstrap_before_target_check
      [where godotenvLoad = "\<lambda>e. (e, Some ''open .env: no such file or directory'')"
         and environ = Map.empty and environ' = Map.empty
         and msg = "''open .env: no such file or directory''" and cfg = NotPointer] h1
    by simp
qed

subsection \<open>GetEnvAsInt\<close>

text \<open>
  C10. \<^verbatim>\<open>GetEnvAsInt\<close> returns the caller's default when the name is unset, when its value
  does not parse as a decimal integer of 64 bits, and when its value is the empty string;
  it returns the parsed number otherwise. Its result is a number in every case: it has no
  error to return.
\<close>

theorem C10_GetEnvAsInt_default:
  "(LookupEnv environ name = None \<longrightarrow> GetEnvAsInt environ name defaultVal = defaultVal)
   \<and> (LookupEnv environ name = Some s \<and> Atoi s = Inl err
        \<longrightarrow> GetEnvAsInt environ name defaultVal = defaultVal)
   \<and> (LookupEnv environ name = Some [] \<longrightarrow> GetEnvAsInt environ name defaultVal = defaultVal)
   \<and> (LookupEnv environ name = Some s \<and> Atoi s = Inr v
        \<longrightarrow> GetEnvAsInt environ name defaultVal = v)"
  by (simp add: GetEnvAsInt_def getEnv_def Atoi_empty)

theorem C10_GetEnvAsInt_default_witness:
  "GetEnvAsInt Map.empty ''PORT'' 8080 = 8080
   \<and> GetEnvAsInt [''PORT'' \<mapsto> ''80a''] ''PORT'' 8080 = 8080
   \<and> GetEnvAsInt [''PORT'' \<mapsto> ''99999999999999999999''] ''PORT'' 8080 = 8080
   \<and> GetEnvAsInt [''PORT'' \<mapsto> []] ''PORT'' 8080 = 8080
   \<and> GetEnvAsInt [''PORT'' \<mapsto> ''443''] ''PORT'' 8080 = 443"
proof -
  note claim = C10_GetEnvAsInt_default
  have unset: "LookupEnv Map.empty ''PORT'' = None" by (simp add: LookupEnv_def)
  have junk: "LookupEnv [''PORT'' \<mapsto> ''80a''] ''PORT'' = Some ''80a''"
    by (simp add: LookupEnv_def)
  have junk_err: "Atoi ''80a'' = Inl ErrSyntax" by code_simp
  have big: "LookupEnv [''PORT'' \<mapsto> ''99999999999999999999''] ''PORT''
      = Some ''99999999999999999999''"
    by (simp add: LookupEnv_def)
  have big_err: "Atoi ''99999999999999999999'' = Inl ErrRange" by code_simp
  have blank: "LookupEnv [''PORT'' \<mapsto> []] ''PORT'' = Some []" by (simp add: LookupEnv_def)
  have good: "LookupEnv [''PORT'' \<mapsto> ''443''] ''PORT'' = Some ''443''"
    by (simp add: LookupEnv_def)
  have good_val: "Atoi ''443'' = Inr 443" by code_simp
  have a: "GetEnvAsInt Map.empty ''PORT'' 8080 = 8080"
    by (rule claim [THEN conjunct1, THEN mp, OF unset])
  have b: "GetEnvAsInt [''PORT'' \<mapsto> ''80a''] ''PORT'' 8080 = 8080"
    by (rule claim [THEN conjunct2, THEN conjunct1, THEN mp, OF conjI, OF junk junk_err])
  have c: "GetEnvAsInt [''PORT'' \<mapsto> ''99999999999999999999''] ''PORT'' 8080 = 8080"
    by (rule claim [THEN conjunct2, THEN conjunct1, THEN mp, OF conjI, OF big big_err])
  have d: "GetEnvAsInt [''PORT'' \<mapsto> []] ''PORT'' 8080 = 8080"
    by (rule claim [THEN conjunct2, THEN conjunct2, THEN conjunct1, THEN mp, OF blank])
  have e: "GetEnvAsInt [''PORT'' \<mapsto> ''443''] ''PORT'' 8080 = 443"
    by (rule claim [THEN conjunct2, THEN conjunct2, THEN conjunct2, THEN mp, OF conjI,
          OF good good_val])
  show ?thesis using a b c d e by (intro conjI)
qed

end
